theory Spec2Isabelle
  imports Complex_Main
begin

section \<open>Data model (models/types.ts)\<close>

text \<open>
  JavaScript numbers are modelled as exact reals (counters as \<open>nat\<close>, millisecond
  durations as \<open>int\<close>): rounding error, \<open>NaN\<close> and \<open>Infinity\<close> are outside the
  model, and where the source divides, the case of a zero divisor is written out.
  An object used as a dictionary (\<open>Record<string, T>\<close>) is an association list in
  the insertion order of its keys, which is the order \<open>Object.keys\<close>,
  \<open>Object.values\<close> and \<open>Object.entries\<close> enumerate. Payloads typed \<open>any\<close> in
  the source are records with the fields the code reads; a field the code guards
  against being absent is an \<open>option\<close>. Where two interfaces of the source share a
  field name, the later record carries a short prefix.
\<close>

datatype error = Error string

datatype RiskProfileType = Aggressive | Balanced | LowRisk

record RiskProfile =
  rtype :: RiskProfileType
  maxDrawdown :: real
  leverage :: real
  positionSizeFactor :: real
  maxExposurePerAsset :: real
  stopLossPercentage :: real
  takeProfitPercentage :: real

record ExchangeData =
  ex_price :: real
  ex_volume24h :: real
  liquidity :: real

record AssetData =
  symbol :: string
  price :: real
  priceChange24h :: real
  volume24h :: real
  volatility :: real
  exchanges :: "(string \<times> ExchangeData) list"

record GlobalMetrics =
  volatilityIndex :: real
  sentimentScore :: real
  trendStrength :: real

record MarketData =
  timestamp :: nat
  assets :: "(string \<times> AssetData) list"
  globalMetrics :: GlobalMetrics

record TradeResult =
  tr_timestamp :: nat
  tr_strategy :: string
  tr_asset :: string
  tradeType :: string
  amount :: real
  tr_price :: real
  fee :: real
  success :: bool
  tr_error :: "string option"

record StrategyScore =
  score :: real
  confidence :: real
  reasoning :: string

type_synonym PortfolioAllocation = "(string \<times> real) list"

record PerformanceMetrics =
  totalReturn :: real
  sharpeRatio :: real
  pm_maxDrawdown :: real
  pm_volatility :: real
  winRate :: real
  averageWin :: real
  averageLoss :: real
  profitFactor :: real
  dailyReturns :: "(string \<times> real) list"

record TokenBalance =
  tb_symbol :: string
  tb_amount :: real
  usdValue :: real

record WalletInfo =
  address :: string
  balances :: "(string \<times> TokenBalance) list"

text \<open>The advisory payloads (\<open>any\<close> in the source), with the fields the code reads.\<close>

record Opportunity =
  op_asset :: string
  op_strategy :: string
  op_confidence :: real
  op_reasoning :: string

record Risk =
  description :: string
  severity :: string
  mitigation :: string

record MarketAnalysis =
  market_trend :: string
  volatility_assessment :: string
  opportunities :: "Opportunity list option"
  risks :: "Risk list option"

record Recommendation =
  action :: string
  rec_reasoning :: string
  priority :: string

record PerformanceAnalysis =
  assessment :: "string option"
  recommendations :: "Recommendation list option"

text \<open>
  An entry of the decision log: \<open>{timestamp, type, details}\<close>. The details are one
  of the five payloads the agent records.
\<close>

datatype DecisionDetails =
    MarketAnalysisDetails string string "Opportunity list" "Risk list"
  | PortfolioAllocationDetails PortfolioAllocation
  | TradeExecutionDetails TradeResult
  | PerformanceAnalysisDetails "string option" "Recommendation list" real real real real
  | RiskAdaptationDetails string RiskProfile

record Decision =
  d_timestamp :: nat
  d_type :: string
  details :: DecisionDetails

section \<open>The agent (agent/AIHedgeFundAgent.ts)\<close>

text \<open>
  The data fields of class \<open>AIHedgeFundAgent\<close>, followed by the part of the
  environment its methods act on: \<open>pendingTimers\<close> is the event loop's queue of
  armed \<open>setTimeout\<close> callbacks of this agent (each with its delay in
  milliseconds), \<open>executedStrategies\<close> the calls made to the strategies'
  \<open>execute\<close> (strategy key and allocation), \<open>recordedTrades\<close> the trades handed
  to \<open>metricsService.recordTrade\<close>. The services and strategies the agent holds are
  not state: what they answer is an input of each cycle.
\<close>

record AIHedgeFundAgent =
  agent_id :: string
  riskProfile :: RiskProfile
  marketData :: "MarketData option"
  marketAnalysis :: "MarketAnalysis option"
  currentAllocation :: PortfolioAllocation
  performanceMetrics :: PerformanceMetrics
  isRunning :: bool
  lastRunTimestamp :: nat
  consecutiveFailures :: nat
  maxConsecutiveFailures :: nat
  adaptiveRunInterval :: int
  decisionLog :: "Decision list"
  pendingTimers :: "int list"
  executedStrategies :: "(string \<times> real) list"
  recordedTrades :: "TradeResult list"

text \<open>The constructor: every field initialiser of the class, and the metrics set to zero.\<close>

definition newAgent :: "string \<Rightarrow> RiskProfile \<Rightarrow> AIHedgeFundAgent" where
  "newAgent i rp =
     \<lparr> agent_id = i,
       riskProfile = rp,
       marketData = None,
       marketAnalysis = None,
       currentAllocation = [],
       performanceMetrics =
         \<lparr> totalReturn = 0, sharpeRatio = 0, pm_maxDrawdown = 0, pm_volatility = 0,
           winRate = 0, averageWin = 0, averageLoss = 0, profitFactor = 0,
           dailyReturns = [] \<rparr>,
       isRunning = False,
       lastRunTimestamp = 0,
       consecutiveFailures = 0,
       maxConsecutiveFailures = 5,
       adaptiveRunInterval = 60000,
       decisionLog = [],
       pendingTimers = [],
       executedStrategies = [],
       recordedTrades = [] \<rparr>"

subsection \<open>Decision log\<close>

text \<open>\<open>xs.slice(-n)\<close>: the last \<open>n\<close> elements, all of them when there are fewer.\<close>

definition slice_last :: "nat \<Rightarrow> 'a list \<Rightarrow> 'a list" where
  "slice_last n xs = drop (length xs - n) xs"

text \<open>
  \<open>recordDecision\<close> pushes \<open>{timestamp, type, details}\<close> and, when the log has
  grown past 100 entries, keeps its last 100. The clock reading is an argument.
\<close>

definition recordDecision ::
  "nat \<Rightarrow> string \<Rightarrow> DecisionDetails \<Rightarrow> AIHedgeFundAgent \<Rightarrow> AIHedgeFundAgent" where
  "recordDecision now decisionType det a =
     (let pushed = decisionLog a @ [\<lparr> d_timestamp = now, d_type = decisionType, details = det \<rparr>]
      in a\<lparr> decisionLog := (if length pushed > 100 then slice_last 100 pushed else pushed) \<rparr>)"

text \<open>A sequence of \<open>recordDecision\<close> calls, oldest first.\<close>

fun recordAll :: "(nat \<times> string \<times> DecisionDetails) list \<Rightarrow> AIHedgeFundAgent \<Rightarrow> AIHedgeFundAgent" where
  "recordAll [] a = a"
| "recordAll ((now, ty, det) # cs) a = recordAll cs (recordDecision now ty det a)"

text \<open>The entry a call produces.\<close>

definition entry :: "nat \<times> string \<times> DecisionDetails \<Rightarrow> Decision" where
  "entry c = (case c of (now, ty, det) \<Rightarrow> \<lparr> d_timestamp = now, d_type = ty, details = det \<rparr>)"

subsection \<open>Risk adapter\<close>

text \<open>\<open>s.includes(sub)\<close>: \<open>sub\<close> occurs in \<open>s\<close> as a contiguous substring.\<close>

fun str_includes :: "string \<Rightarrow> string \<Rightarrow> bool" where
  "str_includes [] sub = (sub = [])"
| "str_includes (c # cs) sub = (take (length sub) (c # cs) = sub \<or> str_includes cs sub)"

text \<open>The body of the loop over the risk recommendations: one recommendation applied.\<close>

definition applyRecommendation :: "Recommendation \<Rightarrow> RiskProfile \<Rightarrow> RiskProfile" where
  "applyRecommendation r rp =
     (if str_includes (action r) ''reduce risk'' \<or> str_includes (action r) ''lower exposure'' then
        rp\<lparr> positionSizeFactor := max 0.5 (positionSizeFactor rp * 0.9),
            maxExposurePerAsset := max 0.05 (maxExposurePerAsset rp * 0.9) \<rparr>
      else if str_includes (action r) ''increase risk'' \<or> str_includes (action r) ''higher exposure'' then
        rp\<lparr> positionSizeFactor := min 1.5 (positionSizeFactor rp * 1.1),
            maxExposurePerAsset := min 0.25 (maxExposurePerAsset rp * 1.1) \<rparr>
      else rp)"

definition isRiskRecommendation :: "Recommendation \<Rightarrow> bool" where
  "isRiskRecommendation r =
     (priority r = ''high'' \<and> (str_includes (action r) ''risk'' \<or> str_includes (action r) ''exposure''))"

definition adaptRiskSettings :: "nat \<Rightarrow> PerformanceAnalysis \<Rightarrow> AIHedgeFundAgent \<Rightarrow> AIHedgeFundAgent" where
  "adaptRiskSettings now pa a =
     (case recommendations pa of
        None \<Rightarrow> a
      | Some recs \<Rightarrow>
          (if recs = [] then a
           else
             (let riskRecommendations = filter isRiskRecommendation recs in
              if riskRecommendations = [] then a
              else
                (let rp = foldl (\<lambda>rp r. applyRecommendation r rp) (riskProfile a) riskRecommendations
                 in recordDecision now ''risk_adaptation''
                      (RiskAdaptationDetails (action (hd riskRecommendations)) rp)
                      (a\<lparr> riskProfile := rp \<rparr>)))))"

text \<open>A sequence of Risk Adapter applications, one performance analysis each.\<close>

fun adaptAll :: "(nat \<times> PerformanceAnalysis) list \<Rightarrow> AIHedgeFundAgent \<Rightarrow> AIHedgeFundAgent" where
  "adaptAll [] a = a"
| "adaptAll ((now, pa) # ps) a = adaptAll ps (adaptRiskSettings now pa a)"

text \<open>The hard bounds of the two adapted parameters.\<close>

definition riskBounds :: "RiskProfile \<Rightarrow> bool" where
  "riskBounds rp =
     (0.5 \<le> positionSizeFactor rp \<and> positionSizeFactor rp \<le> 1.5 \<and>
      0.05 \<le> maxExposurePerAsset rp \<and> maxExposurePerAsset rp \<le> 0.25)"

subsection \<open>Adaptive scheduler\<close>

text \<open>\<open>Math.round\<close>: the nearest integer, a half rounded up.\<close>

definition js_round :: "real \<Rightarrow> int" where
  "js_round x = \<lfloor>x + 1 / 2\<rfloor>"

text \<open>
  The two factors are local constants of \<open>adaptRunInterval\<close>. In
  \<open>1 / (volatilityIndex * 4 || 1)\<close> the operator \<open>||\<close> replaces a product that is
  zero by 1.
\<close>

definition volatilityFactor :: "real \<Rightarrow> real" where
  "volatilityFactor vi = max 0.5 (min 2 (1 / (if vi * 4 = 0 then 1 else vi * 4)))"

definition tradingFactor :: "PortfolioAllocation \<Rightarrow> real" where
  "tradingFactor alloc =
     (if length (map fst alloc) > 0
      then (if foldl (\<lambda>a b. a + b) 0 (map snd alloc) > 0.5 then 0.8 else 1.2)
      else 1)"

definition adaptRunInterval :: "AIHedgeFundAgent \<Rightarrow> AIHedgeFundAgent" where
  "adaptRunInterval a =
     (case marketData a of
        None \<Rightarrow> a
      | Some md \<Rightarrow>
          a\<lparr> adaptiveRunInterval :=
               js_round (60000 * volatilityFactor (volatilityIndex (globalMetrics md))
                               * tradingFactor (currentAllocation a)) \<rparr>)"

text \<open>The clamp of the specification's formula, for comparison with the code.\<close>

definition spec_clamp :: "real \<Rightarrow> real \<Rightarrow> real \<Rightarrow> real" where
  "spec_clamp x lo hi = (if x < lo then lo else if hi < x then hi else x)"

section \<open>The advisory service (services/GeminiService.ts)\<close>

definition normalizeAllocation :: "(string \<times> real) list \<Rightarrow> PortfolioAllocation" where
  "normalizeAllocation allocation =
     (let total = foldl (\<lambda>a b. a + b) 0 (map snd allocation) in
      if total = 0 then
        (let count = length (map fst allocation)
         in map (\<lambda>key. (key, 1 / real count)) (map fst allocation))
      else map (\<lambda>(key, value). (key, value / total)) allocation)"

definition generateEqualAllocation :: "(string \<times> real) list \<Rightarrow> PortfolioAllocation" where
  "generateEqualAllocation strategyScores =
     (let strategies = map fst strategyScores;
          allocation = 1 / real (length strategies)
      in map (\<lambda>strategy. (strategy, allocation)) strategies)"

text \<open>
  The share of one strategy before normalisation. \<open>Math.pow\<close> is \<open>powr\<close>, which
  agrees with it on the non-negative shares that non-negative scores give.
\<close>

definition allocationPercentage ::
  "real \<Rightarrow> RiskProfile \<Rightarrow> MarketAnalysis \<Rightarrow> string \<Rightarrow> real \<Rightarrow> real" where
  "allocationPercentage totalScore rp ma strategy sc =
     (let p0 = sc / totalScore;
          p1 = (if rtype rp = Aggressive then p0 powr 0.8
                else if rtype rp = LowRisk then p0 powr 0.5
                else p0)
      in if volatility_assessment ma = ''high'' \<and> rtype rp \<noteq> Aggressive
         then (if strategy = ''momentum'' then p1 * 0.8
               else if strategy = ''copy-trading'' then p1 * 1.2
               else p1)
         else p1)"

definition generateSmartAllocation ::
  "(string \<times> real) list \<Rightarrow> RiskProfile \<Rightarrow> MarketAnalysis \<Rightarrow> PortfolioAllocation" where
  "generateSmartAllocation strategyScores rp ma =
     (let totalScore = foldl (\<lambda>a b. a + b) 0 (map snd strategyScores) in
      if totalScore = 0 then generateEqualAllocation strategyScores
      else normalizeAllocation
             (map (\<lambda>(strategy, sc). (strategy, allocationPercentage totalScore rp ma strategy sc))
                  strategyScores))"

text \<open>
  What the call of the generative model comes to in \<open>optimizeAllocation\<close>: the service
  runs without a model, the call throws, or it returns a text from which
  \<open>extractJsonFromText\<close> extracts either nothing or an allocation object.
\<close>

datatype AIResponse = AIDisabled | AIThrows | AIText "(string \<times> real) list option"

definition Gemini_optimizeAllocation ::
  "AIResponse \<Rightarrow> (string \<times> real) list \<Rightarrow> RiskProfile \<Rightarrow> MarketAnalysis \<Rightarrow> PortfolioAllocation" where
  "Gemini_optimizeAllocation resp strategyScores rp ma =
     (case resp of
        AIDisabled \<Rightarrow> generateSmartAllocation strategyScores rp ma
      | AIThrows \<Rightarrow> generateSmartAllocation strategyScores rp ma
      | AIText None \<Rightarrow> generateSmartAllocation strategyScores rp ma
      | AIText (Some allocation) \<Rightarrow> normalizeAllocation allocation)"

text \<open>The sum of the weights of an allocation, and non-negativity of all of them.\<close>

definition totalWeight :: "PortfolioAllocation \<Rightarrow> real" where
  "totalWeight alloc = sum_list (map snd alloc)"

definition nonNegative :: "PortfolioAllocation \<Rightarrow> bool" where
  "nonNegative alloc = list_all (\<lambda>(key, w). 0 \<le> w) alloc"

text \<open>
  The same function with the two arithmetic operations it uses as parameters, so that
  it can be read with exact operations, as above, or with the rounded operations of
  double precision.
\<close>

definition normalizeAllocationWith ::
  "(real \<Rightarrow> real \<Rightarrow> real) \<Rightarrow> (real \<Rightarrow> real \<Rightarrow> real) \<Rightarrow> (string \<times> real) list \<Rightarrow> PortfolioAllocation" where
  "normalizeAllocationWith add dv allocation =
     (let total = foldl add 0 (map snd allocation) in
      if total = 0 then
        (let count = length (map fst allocation)
         in map (\<lambda>key. (key, dv 1 (real count))) (map fst allocation))
      else map (\<lambda>(key, value). (key, dv value total)) allocation)"

text \<open>
  Double precision, as far as the normalizer depends on it. A sum or quotient whose
  exact value is within the finite range is rounded to a nearest double: the result
  differs from the exact value by at most the relative error \<open>2^-53\<close>, and for a
  quotient in the subnormal range by at most \<open>2^-1075\<close> in addition (a sum of doubles
  in that range is exact); a quotient that is not negative is not rounded below 0.
  Nothing is assumed of a result beyond the finite range, where the source gets
  \<open>Infinity\<close>.
\<close>

definition unitRoundoff :: real where
  "unitRoundoff = 1 / 2 ^ 53"

definition subnormalError :: real where
  "subnormalError = 1 / 2 ^ 1075"

definition maxDouble :: real where
  "maxDouble = (2 - 1 / 2 ^ 52) * 2 ^ 1023"

definition roundsLikeDouble :: "(real \<Rightarrow> real \<Rightarrow> real) \<Rightarrow> (real \<Rightarrow> real \<Rightarrow> real) \<Rightarrow> bool" where
  "roundsLikeDouble add dv =
     ((\<forall>x y. \<bar>x + y\<bar> \<le> maxDouble \<longrightarrow> \<bar>add x y - (x + y)\<bar> \<le> unitRoundoff * \<bar>x + y\<bar>) \<and>
      (\<forall>x y. y \<noteq> 0 \<and> \<bar>x / y\<bar> \<le> maxDouble \<longrightarrow>
         \<bar>dv x y - x / y\<bar> \<le> unitRoundoff * \<bar>x / y\<bar> + subnormalError \<and>
         (0 \<le> x / y \<longrightarrow> 0 \<le> dv x y)))"

text \<open>
  An addition that is exact except at the one sum \<open>2^53 + 3\<close>, which is not a double
  and is rounded to its even neighbour \<open>2^53 + 4\<close>, as double precision does.
\<close>

definition roundedAdd :: "real \<Rightarrow> real \<Rightarrow> real" where
  "roundedAdd x y = (if x + y = 2 ^ 53 + 3 then 2 ^ 53 + 4 else x + y)"

section \<open>The strategies (strategies/*.ts)\<close>

text \<open>
  Each \<open>evaluate\<close> is modelled up to the text of \<open>reasoning\<close>, which in the source
  also prints the number it explains.
\<close>

subsection \<open>MomentumStrategy\<close>

definition calculateMomentumScore :: "MarketData \<Rightarrow> real" where
  "calculateMomentumScore md =
     (let s1 = 50 + trendStrength (globalMetrics md) * 20;
          vol = volatilityIndex (globalMetrics md);
          s2 = (if vol < 0.3 then s1 + 10 else if vol > 0.7 then s1 - 15 else s1);
          momentumAssetCount = length (filter (\<lambda>(symb, asset). priceChange24h asset > 5) (assets md));
          s3 = s2 + real momentumAssetCount * 2
      in max 0 (min 100 s3))"

definition Momentum_evaluate :: "MarketData \<Rightarrow> StrategyScore" where
  "Momentum_evaluate md =
     (let sc = calculateMomentumScore md
      in \<lparr> score = sc, confidence = sc / 100,
           reasoning = ''Momentum score based on market trends and volatility'' \<rparr>)"

subsection \<open>ArbitrageStrategy\<close>

record ArbitrageOpportunity =
  arb_symbol :: string
  buyExchange :: string
  buyPrice :: real
  sellExchange :: string
  sellPrice :: real
  buyLiquidity :: real
  sellLiquidity :: real

text \<open>The pairs \<open>(xs[i], xs[j])\<close> with \<open>i < j\<close>, in the order of the two nested loops.\<close>

fun pairs :: "'a list \<Rightarrow> ('a \<times> 'a) list" where
  "pairs [] = []"
| "pairs (x # xs) = map (Pair x) xs @ pairs xs"

text \<open>
  \<open>priceDiff / Math.min(priceA, priceB) > MIN_PRICE_DIFFERENCE\<close>, with the threshold
  0.005. When the smaller price is 0, the quotient of the source is \<open>Infinity\<close> for a
  positive difference and \<open>NaN\<close> for the difference 0.
\<close>

definition exceedsThreshold :: "real \<Rightarrow> real \<Rightarrow> bool" where
  "exceedsThreshold priceA priceB =
     (let priceDiff = \<bar>priceA - priceB\<bar>; m = min priceA priceB
      in if m = 0 then priceDiff > 0 else priceDiff / m > 0.005)"

definition pairOpportunity ::
  "string \<Rightarrow> (string \<times> ExchangeData) \<times> (string \<times> ExchangeData) \<Rightarrow> ArbitrageOpportunity list" where
  "pairOpportunity symb p =
     (case p of ((exchangeA, dataA), (exchangeB, dataB)) \<Rightarrow>
        if exceedsThreshold (ex_price dataA) (ex_price dataB) then
          (let buyEx = (if ex_price dataA < ex_price dataB then exchangeA else exchangeB);
               buyP = (if ex_price dataA < ex_price dataB then ex_price dataA else ex_price dataB);
               sellEx = (if ex_price dataA < ex_price dataB then exchangeB else exchangeA);
               sellP = (if ex_price dataA < ex_price dataB then ex_price dataB else ex_price dataA);
               buyLiq = (if buyEx = exchangeA then liquidity dataA else liquidity dataB);
               sellLiq = (if sellEx = exchangeA then liquidity dataA else liquidity dataB)
           in if buyLiq > 10000 \<and> sellLiq > 10000
              then [\<lparr> arb_symbol = symb, buyExchange = buyEx, buyPrice = buyP,
                      sellExchange = sellEx, sellPrice = sellP,
                      buyLiquidity = buyLiq, sellLiquidity = sellLiq \<rparr>]
              else [])
        else [])"

definition isStablecoin :: "string \<Rightarrow> bool" where
  "isStablecoin symb = (symb = ''USDC'' \<or> symb = ''USDT'' \<or> symb = ''DAI'')"

text \<open>
  The opportunities in the order the loops find them. The source then sorts them by
  \<open>profitPotential\<close>; \<open>evaluate\<close> reads only how many there are, so the sort and the
  two quotient fields are left out.
\<close>

definition findArbitrageOpportunities :: "MarketData \<Rightarrow> ArbitrageOpportunity list" where
  "findArbitrageOpportunities md =
     concat (map (\<lambda>(symb, asset).
                    if isStablecoin symb then []
                    else if length (exchanges asset) < 2 then []
                    else concat (map (pairOpportunity symb) (pairs (exchanges asset))))
                 (assets md))"

definition Arbitrage_evaluate :: "MarketData \<Rightarrow> StrategyScore" where
  "Arbitrage_evaluate md =
     (let n = length (findArbitrageOpportunities md);
          sc = (if n > 0 then 50 + min 50 (real n * 10) else 25)
      in \<lparr> score = sc, confidence = sc / 100,
           reasoning = ''Arbitrage score based on opportunities found'' \<rparr>)"

subsection \<open>CopyTradingStrategy\<close>

text \<open>
  \<open>evaluate\<close> asks the advisory service for a market analysis inside a \<open>try\<close>; the
  argument is what that call came to.
\<close>

definition CopyTrading_evaluate :: "MarketData \<Rightarrow> error + MarketAnalysis \<Rightarrow> StrategyScore" where
  "CopyTrading_evaluate md analysisResult =
     (case analysisResult of
        Inl e \<Rightarrow> \<lparr> score = 30, confidence = 0.3,
                   reasoning = ''Error in evaluation, using fallback score'' \<rparr>
      | Inr analysis \<Rightarrow>
          (let s0 = (if volatilityIndex (globalMetrics md) < 0.3 then 50 + 10 else 50);
               sc = (case opportunities analysis of
                       None \<Rightarrow> s0
                     | Some ops \<Rightarrow>
                         s0 + real (length (filter (\<lambda>op. op_strategy op = ''copy-trading'') ops)) * 7)
           in \<lparr> score = max 0 (min 100 sc), confidence = sc / 100,
                reasoning = ''Score based on market volatility and AI-identified copying opportunities'' \<rparr>))"

text \<open>The documented ranges of a \<open>StrategyScore\<close>: \<open>score\<close> 0-100, \<open>confidence\<close> 0-1.\<close>

definition scoreInRange :: "StrategyScore \<Rightarrow> bool" where
  "scoreInRange s = (0 \<le> score s \<and> score s \<le> 100 \<and> 0 \<le> confidence s \<and> confidence s \<le> 1)"

section \<open>The decision cycle (agent/AIHedgeFundAgent.ts)\<close>

text \<open>
  What the collaborators answer during one cycle: the clock, the market-data service,
  the advisory service (asked by the agent and, a second time, by the copy-trading
  strategy), the three strategies' \<open>execute\<close> (each catches its own errors and returns
  a \<open>TradeResult\<close>), the metrics sink, the wallet, the metrics calculation and the
  performance commentary. \<open>Inl\<close> is a call that throws.
\<close>

record cycle_env =
  clock :: nat
  marketDataResult :: "error + MarketData"
  marketAnalysisResult :: "error + MarketAnalysis"
  copyTradingAnalysisResult :: "error + MarketAnalysis"
  allocationResponse :: AIResponse
  momentumResult :: TradeResult
  arbitrageResult :: TradeResult
  copyTradingResult :: TradeResult
  recordTradeResult :: "TradeResult \<Rightarrow> error option"
  walletInfoResult :: "error + WalletInfo option"
  metricsResult :: "PerformanceMetrics \<Rightarrow> WalletInfo \<Rightarrow> PortfolioAllocation \<Rightarrow> error + PerformanceMetrics"
  performanceAnalysisResult :: "error + PerformanceAnalysis"

text \<open>
  A sub-step either returns or throws, and in both cases leaves the agent as it has
  mutated it so far. \<open>andThen\<close> is the sequencing of the \<open>try\<close> block: a throw skips
  what follows.
\<close>

type_synonym 'a step = "AIHedgeFundAgent \<Rightarrow> (error + 'a) \<times> AIHedgeFundAgent"

definition andThen :: "'a step \<Rightarrow> ('a \<Rightarrow> 'b step) \<Rightarrow> 'b step" where
  "andThen m f a = (case m a of (Inl e, a') \<Rightarrow> (Inl e, a') | (Inr x, a') \<Rightarrow> f x a')"

definition fetchMarketData :: "cycle_env \<Rightarrow> unit step" where
  "fetchMarketData env a =
     (case marketDataResult env of
        Inl e \<Rightarrow> (Inl e, a)
      | Inr md \<Rightarrow> (Inr (), a\<lparr> marketData := Some md \<rparr>))"

definition analyzeMarket :: "cycle_env \<Rightarrow> unit step" where
  "analyzeMarket env a =
     (case marketData a of
        None \<Rightarrow> (Inl (Error ''Market data not available''), a)
      | Some md \<Rightarrow>
          (case marketAnalysisResult env of
             Inl e \<Rightarrow> (Inl e, a)
           | Inr an \<Rightarrow>
               (Inr (),
                recordDecision (clock env) ''market_analysis''
                  (MarketAnalysisDetails (market_trend an) (volatility_assessment an)
                     (take 2 (case opportunities an of None \<Rightarrow> [] | Some ops \<Rightarrow> ops))
                     (take 2 (case risks an of None \<Rightarrow> [] | Some rs \<Rightarrow> rs)))
                  (a\<lparr> marketAnalysis := Some an \<rparr>))))"

definition evaluateStrategies :: "cycle_env \<Rightarrow> ((string \<times> real) list) step" where
  "evaluateStrategies env a =
     (case marketData a of
        None \<Rightarrow> (Inl (Error ''Market data or analysis not available''), a)
      | Some md \<Rightarrow>
          (case marketAnalysis a of
             None \<Rightarrow> (Inl (Error ''Market data or analysis not available''), a)
           | Some an \<Rightarrow>
               (Inr [(''momentum'', score (Momentum_evaluate md)),
                     (''arbitrage'', score (Arbitrage_evaluate md)),
                     (''copy-trading'', score (CopyTrading_evaluate md (copyTradingAnalysisResult env)))],
                a)))"

definition optimizeAllocation :: "cycle_env \<Rightarrow> (string \<times> real) list \<Rightarrow> unit step" where
  "optimizeAllocation env strategyScores a =
     (case marketAnalysis a of
        None \<Rightarrow> (Inl (Error ''Market analysis not available''), a)
      | Some an \<Rightarrow>
          (let alloc = Gemini_optimizeAllocation (allocationResponse env) strategyScores (riskProfile a) an
           in (Inr (),
               recordDecision (clock env) ''portfolio_allocation'' (PortfolioAllocationDetails alloc)
                 (a\<lparr> currentAllocation := alloc \<rparr>))))"

text \<open>\<open>this.currentAllocation[key] > 0\<close>: false when the key is absent.\<close>

definition allocated :: "PortfolioAllocation \<Rightarrow> string \<Rightarrow> bool" where
  "allocated alloc key = (case map_of alloc key of None \<Rightarrow> False | Some w \<Rightarrow> w > 0)"

text \<open>One strategy run with its allocation, when it has one; its result joins \<open>results\<close>.\<close>

definition executeIfAllocated ::
  "string \<Rightarrow> TradeResult \<Rightarrow> TradeResult list \<times> AIHedgeFundAgent \<Rightarrow> TradeResult list \<times> AIHedgeFundAgent" where
  "executeIfAllocated key res st =
     (case st of (results, a) \<Rightarrow>
        if allocated (currentAllocation a) key
        then (results @ [res],
              a\<lparr> executedStrategies :=
                   executedStrategies a @ [(key, the (map_of (currentAllocation a) key))] \<rparr>)
        else (results, a))"

text \<open>The loop over \<open>results\<close>: a successful trade goes to the metrics sink and the log.\<close>

fun recordTrades :: "cycle_env \<Rightarrow> TradeResult list \<Rightarrow> unit step" where
  "recordTrades env [] a = (Inr (), a)"
| "recordTrades env (trade # rest) a =
     (if success trade then
        (case recordTradeResult env trade of
           Some e \<Rightarrow> (Inl e, a)
         | None \<Rightarrow>
             recordTrades env rest
               (recordDecision (clock env) ''trade_execution'' (TradeExecutionDetails trade)
                  (a\<lparr> recordedTrades := recordedTrades a @ [trade] \<rparr>)))
      else recordTrades env rest a)"

definition executeAllocatedStrategies :: "cycle_env \<Rightarrow> unit step" where
  "executeAllocatedStrategies env a =
     (case marketData a of
        None \<Rightarrow> (Inl (Error ''Market data or analysis not available''), a)
      | Some md \<Rightarrow>
          (case marketAnalysis a of
             None \<Rightarrow> (Inl (Error ''Market data or analysis not available''), a)
           | Some an \<Rightarrow>
               (case executeIfAllocated ''copy-trading'' (copyTradingResult env)
                       (executeIfAllocated ''arbitrage'' (arbitrageResult env)
                          (executeIfAllocated ''momentum'' (momentumResult env) ([], a))) of
                  (results, a') \<Rightarrow> recordTrades env results a')))"

definition updatePerformanceMetrics :: "cycle_env \<Rightarrow> unit step" where
  "updatePerformanceMetrics env a =
     (case walletInfoResult env of
        Inl e \<Rightarrow> (Inl e, a)
      | Inr None \<Rightarrow> (Inr (), a)
      | Inr (Some walletInfo) \<Rightarrow>
          (case metricsResult env (performanceMetrics a) walletInfo (currentAllocation a) of
             Inl e \<Rightarrow> (Inl e, a)
           | Inr m \<Rightarrow> (Inr (), a\<lparr> performanceMetrics := m \<rparr>)))"

definition analyzePerformanceAndAdapt :: "cycle_env \<Rightarrow> unit step" where
  "analyzePerformanceAndAdapt env a =
     (case performanceAnalysisResult env of
        Inl e \<Rightarrow> (Inl e, a)
      | Inr pa \<Rightarrow>
          (Inr (),
           adaptRiskSettings (clock env) pa
             (recordDecision (clock env) ''performance_analysis''
                (PerformanceAnalysisDetails (assessment pa)
                   (case recommendations pa of None \<Rightarrow> [] | Some recs \<Rightarrow> recs)
                   (totalReturn (performanceMetrics a)) (sharpeRatio (performanceMetrics a))
                   (pm_volatility (performanceMetrics a)) (pm_maxDrawdown (performanceMetrics a)))
                a)))"


text \<open>The \<open>try\<close> block of \<open>runCycle\<close>.\<close>

definition cycleBody :: "cycle_env \<Rightarrow> unit step" where
  "cycleBody env a =
     (andThen (fetchMarketData env) (\<lambda>_.
      andThen (analyzeMarket env) (\<lambda>_.
      andThen (evaluateStrategies env) (\<lambda>strategyScores.
      andThen (optimizeAllocation env strategyScores) (\<lambda>_.
      andThen (executeAllocatedStrategies env) (\<lambda>_.
      andThen (updatePerformanceMetrics env) (\<lambda>_.
      andThen (analyzePerformanceAndAdapt env) (\<lambda>_ a'.
        (Inr (), adaptRunInterval (a'\<lparr> consecutiveFailures := 0 \<rparr>))))))))))
       (a\<lparr> lastRunTimestamp := clock env \<rparr>)"




definition stop :: "AIHedgeFundAgent \<Rightarrow> AIHedgeFundAgent" where
  "stop a = a\<lparr> isRunning := False \<rparr>"

text \<open>\<open>setTimeout\<close> with the current adaptive interval: one more armed timer.\<close>

definition scheduleNextCycle :: "AIHedgeFundAgent \<Rightarrow> AIHedgeFundAgent" where
  "scheduleNextCycle a = a\<lparr> pendingTimers := pendingTimers a @ [adaptiveRunInterval a] \<rparr>"

text \<open>
  \<open>runCycle\<close> returns the agent and nothing else: the \<open>catch\<close> clause ends every
  throw of the \<open>try\<close> block.
\<close>

definition runCycle :: "cycle_env \<Rightarrow> AIHedgeFundAgent \<Rightarrow> AIHedgeFundAgent" where
  "runCycle env a =
     (case cycleBody env a of
        (Inr u, a1) \<Rightarrow> (if isRunning a1 then scheduleNextCycle a1 else a1)
      | (Inl e, a1) \<Rightarrow>
          (let a2 = a1\<lparr> consecutiveFailures := consecutiveFailures a1 + 1 \<rparr> in
           if consecutiveFailures a2 \<ge> maxConsecutiveFailures a2 then stop a2
           else if isRunning a2 then scheduleNextCycle a2 else a2))"

definition start :: "cycle_env \<Rightarrow> AIHedgeFundAgent \<Rightarrow> AIHedgeFundAgent" where
  "start env a =
     (if isRunning a then a
      else scheduleNextCycle (runCycle env (a\<lparr> isRunning := True \<rparr>)))"





text \<open>A cycle fails when its \<open>try\<close> block throws.\<close>

definition cycleFails :: "cycle_env \<Rightarrow> AIHedgeFundAgent \<Rightarrow> bool" where
  "cycleFails env a = isl (fst (cycleBody env a))"





text \<open>
  Three views of the agent for stating what a cycle leaves alone: the fields that
  decide scheduling and the circuit breaker; the allocation with the calls made on
  the strategies and the metrics sink; and the growth of the decision log, where
  every entry is an old one or of one of the five kinds.
\<close>

definition control :: "AIHedgeFundAgent \<Rightarrow> bool \<times> nat \<times> int list \<times> nat \<times> int" where
  "control a =
     (isRunning a, maxConsecutiveFailures a, pendingTimers a, consecutiveFailures a,
      adaptiveRunInterval a)"



section \<open>Concrete inputs\<close>

definition exampleRiskProfile :: RiskProfile where
  "exampleRiskProfile =
     \<lparr> rtype = Balanced, maxDrawdown = 0.2, leverage = 1, positionSizeFactor = 1,
       maxExposurePerAsset = 0.1, stopLossPercentage = 5, takeProfitPercentage = 10 \<rparr>"

definition exampleAgent :: AIHedgeFundAgent where
  "exampleAgent = newAgent ''agent-1'' exampleRiskProfile"

text \<open>A calm market without assets, and an analysis naming six copy-trading opportunities.\<close>

definition exampleMarketData :: MarketData where
  "exampleMarketData =
     \<lparr> timestamp = 0, assets = [],
       globalMetrics = \<lparr> volatilityIndex = 0.2, sentimentScore = 50, trendStrength = 0.5 \<rparr> \<rparr>"

definition copyOpportunity :: Opportunity where
  "copyOpportunity =
     \<lparr> op_asset = ''ETH'', op_strategy = ''copy-trading'', op_confidence = 0.8,
       op_reasoning = ''steady'' \<rparr>"

definition exampleAnalysis :: MarketAnalysis where
  "exampleAnalysis =
     \<lparr> market_trend = ''neutral'', volatility_assessment = ''low'',
       opportunities = Some [copyOpportunity, copyOpportunity, copyOpportunity,
                             copyOpportunity, copyOpportunity, copyOpportunity],
       risks = Some [] \<rparr>"

definition exampleScores :: "(string \<times> real) list" where
  "exampleScores = [(''momentum'', 40), (''arbitrage'', 70), (''copy-trading'', 55)]"

definition reduceAnalysis :: PerformanceAnalysis where
  "reduceAnalysis =
     \<lparr> assessment = Some ''drawdown too deep'',
       recommendations =
         Some [\<lparr> action = ''reduce risk'', rec_reasoning = ''losses'', priority = ''high'' \<rparr>] \<rparr>"

definition noTrade :: TradeResult where
  "noTrade =
     \<lparr> tr_timestamp = 0, tr_strategy = ''none'', tr_asset = ''UNKNOWN'', tradeType = ''buy'',
       amount = 0, tr_price = 0, fee = 0, success = False, tr_error = Some ''nothing to trade'' \<rparr>"



text \<open>A cycle in which nothing throws: no wallet information, no recommendations.\<close>

definition quietEnv :: cycle_env where
  "quietEnv =
     \<lparr> clock = 2000,
       marketDataResult = Inr exampleMarketData,
       marketAnalysisResult = Inr exampleAnalysis,
       copyTradingAnalysisResult = Inr exampleAnalysis,
       allocationResponse = AIText (Some [(''momentum'', 1), (''arbitrage'', 1)]),
       momentumResult = noTrade, arbitrageResult = noTrade, copyTradingResult = noTrade,
       recordTradeResult = (\<lambda>trade. None),
       walletInfoResult = Inr None,
       metricsResult = (\<lambda>m w alloc. Inr m),
       performanceAnalysisResult = Inr \<lparr> assessment = None, recommendations = None \<rparr> \<rparr>"

section \<open>Decision log: bounded, oldest evicted first\<close>

lemma decisionLog_recordDecision:
  "decisionLog (recordDecision now ty det a) =
     slice_last 100 (decisionLog a @ [entry (now, ty, det)])"
  by (simp add: recordDecision_def entry_def slice_last_def Let_def)

lemma slice_last_idem_append:
  "slice_last n (slice_last n xs @ ys) = slice_last n (xs @ ys)"
proof (cases "length xs \<le> n")
  case True
  then show ?thesis by (simp add: slice_last_def)
next
  case False
  then have k: "length xs - (length xs - n) = n" by simp
  have e1: "length ys + (length xs - n) = length xs + length ys - n" using False by simp
  have e2: "length xs + length ys - n - length xs = length ys - n" using False by simp
  show ?thesis
    unfolding slice_last_def
    by (simp add: k e1 e2)
qed

lemma decisionLog_recordAll:
  "decisionLog (recordAll cs a) = slice_last 100 (decisionLog a @ map entry cs) \<or> cs = []"
proof (induction cs arbitrary: a)
  case Nil
  then show ?case by simp
next
  case (Cons c cs)
  obtain now ty det where c: "c = (now, ty, det)" by (cases c) auto
  show ?case
  proof (cases "cs = []")
    case True
    then show ?thesis by (simp add: c decisionLog_recordDecision)
  next
    case False
    with Cons.IH[of "recordDecision now ty det a"]
    have "decisionLog (recordAll (c # cs) a)
        = slice_last 100 (slice_last 100 (decisionLog a @ [entry c]) @ map entry cs)"
      by (simp add: c decisionLog_recordDecision)
    then show ?thesis by (simp add: slice_last_idem_append)
  qed
qed

text \<open>
  C7. Whatever calls of \<open>recordDecision\<close> a new agent receives, its log holds at most
  100 entries, and they are the last 100 calls' entries in the order of the calls (so
  the oldest are the ones evicted); after 150 calls these are the entries of calls 51
  to 150.
\<close>

theorem decision_log_bounded_fifo:
  "length (decisionLog (recordAll cs (newAgent i rp))) \<le> 100 \<and>
   decisionLog (recordAll cs (newAgent i rp)) = drop (length cs - 100) (map entry cs) \<and>
   decisionLog (recordAll (map c [1..<151]) (newAgent i rp)) = map (entry \<circ> c) [51..<151]"
proof -
  have l0: "decisionLog (newAgent i rp) = []" by (simp add: newAgent_def)
  have g: "decisionLog (recordAll cs (newAgent i rp)) = drop (length cs - 100) (map entry cs)" for cs
    using decisionLog_recordAll[of cs "newAgent i rp"] by (auto simp add: l0 slice_last_def)
  have "drop 50 (map (entry \<circ> c) [1..<151]) = map (entry \<circ> c) [51..<151]"
    by (simp add: drop_map)
  then show ?thesis by (simp add: g)
qed

section \<open>Risk adapter: the hard bounds are invariant\<close>

lemma riskProfile_recordDecision: "riskProfile (recordDecision now ty det a) = riskProfile a"
  by (simp add: recordDecision_def Let_def)

lemma applyRecommendation_bounds: "riskBounds rp \<Longrightarrow> riskBounds (applyRecommendation r rp)"
  by (auto simp: riskBounds_def applyRecommendation_def)

lemma foldl_applyRecommendation_bounds:
  "riskBounds rp \<Longrightarrow> riskBounds (foldl (\<lambda>rp r. applyRecommendation r rp) rp rs)"
  by (induction rs arbitrary: rp) (simp_all add: applyRecommendation_bounds)

lemma adaptRiskSettings_bounds:
  "riskBounds (riskProfile a) \<Longrightarrow> riskBounds (riskProfile (adaptRiskSettings now pa a))"
  by (simp add: adaptRiskSettings_def Let_def riskProfile_recordDecision
        foldl_applyRecommendation_bounds split: option.splits)

text \<open>
  C6. If \<open>positionSizeFactor\<close> starts in [0.5, 1.5] and \<open>maxExposurePerAsset\<close> in
  [0.05, 0.25], they are still there after any sequence of applications of the Risk
  Adapter, whatever recommendations each performance analysis carries.
\<close>

theorem risk_adapter_keeps_bounds:
  "riskBounds (riskProfile a) \<Longrightarrow> riskBounds (riskProfile (adaptAll ps a))"
proof (induction ps arbitrary: a)
  case Nil
  then show ?case by simp
next
  case (Cons p ps)
  obtain now pa where p: "p = (now, pa)" by (cases p)
  from Cons.prems have "riskBounds (riskProfile (adaptRiskSettings now pa a))"
    by (rule adaptRiskSettings_bounds)
  then show ?case using Cons.IH by (simp add: p)
qed

theorem risk_adapter_keeps_bounds_witness:
  "riskBounds (riskProfile exampleAgent) \<and>
   riskBounds (riskProfile (adaptAll [(1, reduceAnalysis), (2, reduceAnalysis)] exampleAgent)) \<and>
   positionSizeFactor (riskProfile (adaptAll [(1, reduceAnalysis), (2, reduceAnalysis)] exampleAgent))
     = 81 / 100"
proof -
  have h: "riskBounds (riskProfile exampleAgent)"
    by (simp add: exampleAgent_def newAgent_def exampleRiskProfile_def riskBounds_def)
  have v: "positionSizeFactor
             (riskProfile (adaptAll [(1, reduceAnalysis), (2, reduceAnalysis)] exampleAgent))
           = 81 / 100"
    by (simp add: exampleAgent_def newAgent_def exampleRiskProfile_def reduceAnalysis_def
          adaptRiskSettings_def isRiskRecommendation_def applyRecommendation_def
          recordDecision_def Let_def)
  show ?thesis by (intro conjI h v risk_adapter_keeps_bounds[OF h])
qed

section \<open>Allocation normalizer\<close>

lemma foldl_plus_sum_list: "foldl (\<lambda>a b. a + b) z xs = z + sum_list xs" for z :: real
  by (induction xs arbitrary: z) simp_all

lemma normalizeAllocation_zero:
  "sum_list (map snd raw) = 0 \<Longrightarrow>
   normalizeAllocation raw = map (\<lambda>k. (k, 1 / real (length raw))) (map fst raw)"
  by (simp add: normalizeAllocation_def foldl_plus_sum_list)

lemma all_zero_sum: "list_all (\<lambda>(k, w). w = 0) raw \<Longrightarrow> sum_list (map snd raw) = 0"
  for raw :: "(string \<times> real) list"
  by (induction raw) auto

text \<open>
  C1, as the code has it. When every raw weight is zero (in particular when the raw map
  is empty), the normalizer splits equally over the keys of the raw map itself: each
  gets one over the number of raw keys, and an empty raw map gives the empty
  allocation. This is also what \<open>optimizeAllocation\<close> returns for such an answer of
  the advisory service, whatever strategies were scored.
\<close>

theorem normalizeAllocation_equal_split_of_input:
  assumes "list_all (\<lambda>(k, w). w = 0) raw"
  shows "normalizeAllocation raw = map (\<lambda>(k, w). (k, 1 / real (length raw))) raw \<and>
         Gemini_optimizeAllocation (AIText (Some raw)) strategyScores rp ma = normalizeAllocation raw \<and>
         normalizeAllocation [] = []"
  using all_zero_sum[OF assms]
  by (simp add: normalizeAllocation_zero Gemini_optimizeAllocation_def case_prod_unfold comp_def)

theorem normalizeAllocation_equal_split_of_input_witness:
  "list_all (\<lambda>(k, w). w = 0) [(''momentum'', 0 :: real), (''arbitrage'', 0)] \<and>
   normalizeAllocation [(''momentum'', 0), (''arbitrage'', 0)]
     = [(''momentum'', 1 / 2), (''arbitrage'', 1 / 2)]"
  using normalizeAllocation_equal_split_of_input
          [of "[(''momentum'', 0), (''arbitrage'', 0)]" exampleScores exampleRiskProfile exampleAnalysis]
  by simp

text \<open>
  The claim C1 as the specification states it fails: three strategies are scored and
  the advisory service answers \<open>{}\<close>; the allocation is empty, not a third each.
\<close>

theorem empty_advice_counterexample:
  "Gemini_optimizeAllocation (AIText (Some [])) exampleScores exampleRiskProfile exampleAnalysis = [] \<and>
   Gemini_optimizeAllocation (AIText (Some [])) exampleScores exampleRiskProfile exampleAnalysis
     \<noteq> [(''momentum'', 1 / 3), (''arbitrage'', 1 / 3), (''copy-trading'', 1 / 3)]"
  by (simp add: Gemini_optimizeAllocation_def normalizeAllocation_def)

subsection \<open>The normalizer in double precision\<close>

lemma fl_sum_bounds:
  fixes add :: "real \<Rightarrow> real \<Rightarrow> real" and u M :: real
  assumes A1: "\<And>x y. \<bar>x + y\<bar> \<le> M \<Longrightarrow> \<bar>add x y - (x + y)\<bar> \<le> u * \<bar>x + y\<bar>"
    and u: "0 \<le> u" "u \<le> 1"
  shows "(\<forall>v\<in>set vs. 0 \<le> v) \<Longrightarrow> sum_list vs * (1 + u) ^ length vs \<le> M \<Longrightarrow>
         sum_list vs * (1 - u) ^ length vs \<le> foldl add 0 vs \<and>
         foldl add 0 vs \<le> sum_list vs * (1 + u) ^ length vs"
proof (induction vs rule: rev_induct)
  case Nil
  then show ?case by simp
next
  case (snoc v vs)
  let ?S = "sum_list vs" and ?n = "length vs" and ?s = "foldl add 0 vs"
  let ?p = "(1 - u) ^ ?n" and ?q = "(1 + u) ^ ?n"
  have v: "0 \<le> v" and nn: "\<forall>w\<in>set vs. 0 \<le> w" using snoc.prems(1) by auto
  have S: "0 \<le> ?S" using nn by (simp add: sum_list_nonneg)
  have p: "0 \<le> ?p" "?p \<le> 1" using u by (simp_all add: power_le_one)
  have q: "1 \<le> ?q" using u by (simp add: one_le_power)
  have bnd: "(?S + v) * (?q * (1 + u)) \<le> M" using snoc.prems(2) by (simp add: mult.commute)
  have q1: "?q \<le> ?q * (1 + u)" using q u by (simp add: mult_le_cancel_left1)
  have "?S * ?q \<le> (?S + v) * (?q * (1 + u))"
    using S v q q1 by (intro mult_mono) auto
  with bnd have "?S * ?q \<le> M" by linarith
  from snoc.IH[OF nn this] have lo: "?S * ?p \<le> ?s" and hi: "?s \<le> ?S * ?q" by auto
  have vq: "v \<le> v * ?q" using v q by (simp add: mult_le_cancel_left1)
  have vp: "v * ?p \<le> v" using v p by (simp add: mult_left_le)
  have x_hi: "?s + v \<le> (?S + v) * ?q" using hi vq by (simp add: algebra_simps)
  have x_lo: "(?S + v) * ?p \<le> ?s + v" using lo vp by (simp add: algebra_simps)
  have "0 \<le> ?S * ?p" using S p by simp
  with lo v have x0: "0 \<le> ?s + v" by linarith
  have "(?S + v) * ?q \<le> (?S + v) * (?q * (1 + u))"
    using S v q1 by (intro mult_left_mono) auto
  with x_hi bnd x0 have "\<bar>?s + v\<bar> \<le> M" by linarith
  from A1[OF this] x0 have e: "\<bar>add ?s v - (?s + v)\<bar> \<le> u * (?s + v)" by simp
  have up: "add ?s v \<le> (?s + v) * (1 + u)" using e by (simp add: algebra_simps abs_le_iff)
  have dn: "(?s + v) * (1 - u) \<le> add ?s v" using e by (simp add: algebra_simps abs_le_iff)
  have "(?s + v) * (1 + u) \<le> ((?S + v) * ?q) * (1 + u)"
    using x_hi u by (intro mult_right_mono) auto
  moreover have "((?S + v) * ?q) * (1 + u) = (?S + v) * (1 + u) ^ Suc ?n" by simp
  ultimately have r1: "add ?s v \<le> (?S + v) * (1 + u) ^ Suc ?n" using up by linarith
  have "((?S + v) * ?p) * (1 - u) \<le> (?s + v) * (1 - u)"
    using x_lo u by (intro mult_right_mono) auto
  moreover have "((?S + v) * ?p) * (1 - u) = (?S + v) * (1 - u) ^ Suc ?n" by simp
  ultimately have r2: "(?S + v) * (1 - u) ^ Suc ?n \<le> add ?s v" using dn by linarith
  from r1 r2 show ?case by simp
qed

lemma power_bounds:
  fixes u g :: real
  assumes u: "0 \<le> u" "u \<le> 1" and g: "real n * u \<le> g" "g < 1"
  shows "1 - g \<le> (1 - u) ^ n" and "(1 + u) ^ n * (1 - g) \<le> 1"
proof -
  have b: "1 + real n * (- u) \<le> (1 + (- u)) ^ n"
    using u by (intro Bernoulli_inequality) simp
  then show l: "1 - g \<le> (1 - u) ^ n" using g by simp
  have "(1 + u) ^ n * (1 - u) ^ n = ((1 + u) * (1 - u)) ^ n" by (simp add: power_mult_distrib)
  also have "\<dots> \<le> 1" using u by (intro power_le_one) (simp_all add: algebra_simps mult_le_one)
  finally have m: "(1 + u) ^ n * (1 - u) ^ n \<le> 1" .
  have "(1 + u) ^ n * (1 - g) \<le> (1 + u) ^ n * (1 - u) ^ n"
    using l u by (intro mult_left_mono) simp_all
  with m show "(1 + u) ^ n * (1 - g) \<le> 1" by linarith
qed


lemma sum_list_error:
  fixes f g :: "'a \<Rightarrow> real"
  shows "(\<forall>x\<in>set xs. \<bar>f x - g x\<bar> \<le> u * g x + e) \<Longrightarrow>
         \<bar>sum_list (map f xs) - sum_list (map g xs)\<bar>
           \<le> u * sum_list (map g xs) + real (length xs) * e"
proof (induction xs)
  case Nil
  then show ?case by simp
next
  case (Cons x xs)
  then have a: "\<bar>f x - g x\<bar> \<le> u * g x + e"
    and b: "\<bar>sum_list (map f xs) - sum_list (map g xs)\<bar>
              \<le> u * sum_list (map g xs) + real (length xs) * e"
    by auto
  from a b show ?case by (simp add: algebra_simps)
qed

lemma final_bound:
  fixes r W u e :: real
  assumes lo: "1 - 2 / 10 ^ 10 \<le> r" and hi: "r * (1 - 2 / 10 ^ 10) \<le> 1"
    and w: "\<bar>W - r\<bar> \<le> u * r + e" and u: "0 \<le> u" "u \<le> 2 / 10 ^ 10" and e: "e \<le> 2 / 10 ^ 10"
  shows "\<bar>W - 1\<bar> \<le> 1 / 10 ^ 9"
proof -
  have r0: "0 \<le> r" using lo by simp
  have rh: "r \<le> 1 + 3 / 10 ^ 10" using hi by simp
  have "u * r \<le> (2 / 10 ^ 10) * r" using u r0 by (intro mult_right_mono) auto
  with rh have ur: "u * r \<le> 3 / 10 ^ 10" by simp
  have w1: "W - r \<le> u * r + e" and w2: "r - W \<le> u * r + e" using w by (simp_all add: abs_le_iff)
  have "W - 1 \<le> 1 / 10 ^ 9" using w1 e rh ur by simp
  moreover have "1 - W \<le> 1 / 10 ^ 9" using w2 e lo ur by simp
  ultimately show ?thesis unfolding abs_le_iff by simp
qed

lemma double_constants:
  "0 \<le> unitRoundoff" "unitRoundoff \<le> 1" "unitRoundoff \<le> 2 / 10 ^ 10" "0 \<le> subnormalError"
  "n \<le> 2 ^ 20 \<Longrightarrow> real n * unitRoundoff \<le> 2 / 10 ^ 10"
  "n \<le> 2 ^ 20 \<Longrightarrow> real n * subnormalError \<le> 2 / 10 ^ 10"
  "1 \<le> maxDouble" "2 ^ 1023 * (3 / 2) \<le> maxDouble"
proof -
  show "0 \<le> unitRoundoff" "unitRoundoff \<le> 1" "unitRoundoff \<le> 2 / 10 ^ 10" "0 \<le> subnormalError"
    by (simp_all add: unitRoundoff_def subnormalError_def)
  show "1 \<le> maxDouble" "2 ^ 1023 * (3 / 2) \<le> maxDouble"
    by (simp_all add: maxDouble_def)
  assume n: "n \<le> 2 ^ 20"
  then have r: "real n \<le> 2 ^ 20" by (metis of_nat_le_iff of_nat_numeral of_nat_power)
  have "real n * unitRoundoff \<le> 2 ^ 20 * unitRoundoff"
    using r by (intro mult_right_mono) (simp_all add: unitRoundoff_def)
  then show "real n * unitRoundoff \<le> 2 / 10 ^ 10" by (simp add: unitRoundoff_def)
  have "real n * subnormalError \<le> 2 ^ 20 * subnormalError"
    using r by (intro mult_right_mono) (simp_all add: subnormalError_def)
  then show "real n * subnormalError \<le> 2 / 10 ^ 10" by (simp add: subnormalError_def)
qed


lemma snd_nonneg: "nonNegative raw \<Longrightarrow> \<forall>v\<in>set (map snd raw). 0 \<le> v"
  by (auto simp: nonNegative_def list_all_iff)

lemma sum_list_map_quot:
  "sum_list (map (\<lambda>x. snd x / c) xs) = sum_list (map snd xs) / c" for c :: real
  by (induction xs) (auto simp: add_divide_distrib)

lemma double_precision_bounds:
  assumes R: "roundsLikeDouble add dv"
    and nn: "nonNegative raw"
    and len: "length raw \<le> 2 ^ 20"
    and sm: "totalWeight raw \<le> 2 ^ 1023"
  shows "nonNegative (normalizeAllocationWith add dv raw) \<and>
         (raw \<noteq> [] \<longrightarrow> \<bar>totalWeight (normalizeAllocationWith add dv raw) - 1\<bar> \<le> 1 / 10 ^ 9) \<and>
         (normalizeAllocationWith add dv raw = [] \<longleftrightarrow> raw = [])"
proof -
  let ?u = unitRoundoff and ?g = "2 / 10 ^ 10 :: real"
  let ?vs = "map snd raw" and ?n = "length raw"
  let ?T = "sum_list (map snd raw)" and ?t = "foldl add 0 (map snd raw)"
  note c = double_constants
  have A1: "\<And>x y. \<bar>x + y\<bar> \<le> maxDouble \<Longrightarrow> \<bar>add x y - (x + y)\<bar> \<le> ?u * \<bar>x + y\<bar>"
    and A2: "\<And>x y. y \<noteq> 0 \<Longrightarrow> \<bar>x / y\<bar> \<le> maxDouble \<Longrightarrow>
               \<bar>dv x y - x / y\<bar> \<le> ?u * \<bar>x / y\<bar> + subnormalError"
    and A3: "\<And>x y. y \<noteq> 0 \<Longrightarrow> \<bar>x / y\<bar> \<le> maxDouble \<Longrightarrow> 0 \<le> x / y \<Longrightarrow> 0 \<le> dv x y"
    using R by (auto simp: roundsLikeDouble_def)
  have vs0: "\<forall>v\<in>set ?vs. 0 \<le> v" using nn by (rule snd_nonneg)
  have T0: "0 \<le> ?T" using vs0 by (intro sum_list_nonneg) auto
  have nu: "real ?n * ?u \<le> ?g" and ne: "real ?n * subnormalError \<le> ?g"
    using c(5,6)[OF len] by simp_all
  from power_bounds[OF c(1,2) nu] have pl: "1 - ?g \<le> (1 - ?u) ^ ?n"
    and ph: "(1 + ?u) ^ ?n * (1 - ?g) \<le> 1" by simp_all
  have q32: "(1 + ?u) ^ ?n \<le> 3 / 2" using ph by simp
  have q0: "0 \<le> (1 + ?u) ^ ?n" using c(1) by simp
  have "?T * (1 + ?u) ^ ?n \<le> 2 ^ 1023 * (3 / 2)"
    using sm T0 q32 q0 by (intro mult_mono) (simp_all add: totalWeight_def)
  with c(8) have bnd: "sum_list ?vs * (1 + ?u) ^ length ?vs \<le> maxDouble" by simp
  from fl_sum_bounds[OF A1 c(1,2) vs0 bnd]
  have tl: "?T * (1 - ?u) ^ ?n \<le> ?t" and th: "?t \<le> ?T * (1 + ?u) ^ ?n" by simp_all
  have e: "(normalizeAllocationWith add dv raw = [] \<longleftrightarrow> raw = [])"
    by (simp add: normalizeAllocationWith_def Let_def)
  show ?thesis
  proof (cases "?T = 0")
    case True
    with tl th have t0: "?t = 0" by simp
    have out: "normalizeAllocationWith add dv raw = map (\<lambda>key. (key, dv 1 (real ?n))) (map fst raw)"
      by (simp add: normalizeAllocationWith_def t0)
    show ?thesis
    proof (cases "raw = []")
      case True
      then show ?thesis by (simp add: normalizeAllocationWith_def nonNegative_def)
    next
      case False
      then have n0: "real ?n \<noteq> 0" and n1: "1 \<le> real ?n" by (cases raw; simp)+
      have "1 / real ?n \<le> 1" using False by (cases raw) (simp_all add: field_simps)
      with c(7) have q: "\<bar>1 / real ?n\<bar> \<le> maxDouble" by simp
      have w0: "0 \<le> dv 1 (real ?n)" using A3[OF n0 q] by simp
      have we: "\<bar>dv 1 (real ?n) - 1 / real ?n\<bar> \<le> ?u * (1 / real ?n) + subnormalError"
        using A2[OF n0 q] by simp
      have W: "totalWeight (normalizeAllocationWith add dv raw) = real ?n * dv 1 (real ?n)"
        by (simp add: out totalWeight_def comp_def sum_list_triv)
      have "real ?n * \<bar>dv 1 (real ?n) - 1 / real ?n\<bar>
              \<le> real ?n * (?u * (1 / real ?n) + subnormalError)"
        using we by (intro mult_left_mono) simp_all
      also have "\<dots> = ?u + real ?n * subnormalError" using n0 by (simp add: algebra_simps)
      finally have h: "real ?n * \<bar>dv 1 (real ?n) - 1 / real ?n\<bar> \<le> ?u + real ?n * subnormalError" .
      have "real ?n * \<bar>dv 1 (real ?n) - 1 / real ?n\<bar> = \<bar>real ?n * (dv 1 (real ?n) - 1 / real ?n)\<bar>"
        by (simp add: abs_mult)
      also have "real ?n * (dv 1 (real ?n) - 1 / real ?n) = real ?n * dv 1 (real ?n) - 1"
        using n0 by (simp add: algebra_simps)
      finally have "\<bar>real ?n * dv 1 (real ?n) - 1\<bar> \<le> ?u + real ?n * subnormalError"
        using h by simp
      with c(3) ne have "\<bar>totalWeight (normalizeAllocationWith add dv raw) - 1\<bar> \<le> 1 / 10 ^ 9"
        by (simp add: W)
      moreover have "nonNegative (normalizeAllocationWith add dv raw)"
        using w0 by (simp add: out nonNegative_def list_all_iff)
      ultimately show ?thesis using e by simp
    qed
  next
    case False
    with T0 have Tp: "0 < ?T" by simp
    have "?T * (1 - ?g) \<le> ?T * (1 - ?u) ^ ?n" using pl T0 by (intro mult_left_mono) simp_all
    with tl have tg: "?T * (1 - ?g) \<le> ?t" by linarith
    have "0 < ?T * (1 - ?g)" using Tp by simp
    with tg have tp: "0 < ?t" by linarith
    then have tn: "?t \<noteq> 0" by simp
    have out: "normalizeAllocationWith add dv raw = map (\<lambda>(key, value). (key, dv value ?t)) raw"
      using tn by (simp add: normalizeAllocationWith_def Let_def)
    let ?r = "?T / ?t"
    have rh: "?r * (1 - ?g) \<le> 1" using tg tp by (simp add: field_simps)
    have "?t * (1 - ?g) \<le> (?T * (1 + ?u) ^ ?n) * (1 - ?g)"
      using th by (intro mult_right_mono) simp_all
    then have "?t * (1 - ?g) \<le> ?T * ((1 + ?u) ^ ?n * (1 - ?g))" by (simp add: mult.assoc)
    also have "\<dots> \<le> ?T * 1" using ph T0 by (intro mult_left_mono) simp_all
    finally have rl: "1 - ?g \<le> ?r" using tp by (simp add: field_simps)
    have r32: "?r \<le> 3 / 2" using rh by simp
    have each: "0 \<le> snd x / ?t \<and> \<bar>snd x / ?t\<bar> \<le> maxDouble" if "x \<in> set raw" for x
    proof -
      have x0: "0 \<le> snd x" using that vs0 by auto
      have "snd x \<le> ?T" using that vs0 by (intro member_le_sum_list) auto
      then have xr: "snd x / ?t \<le> ?r" using tp by (simp add: divide_right_mono)
      have q0: "0 \<le> snd x / ?t" using x0 tp by simp
      have "(3 / 2 :: real) \<le> 2 ^ 1023 * (3 / 2)" by simp
      with xr r32 c(8) q0 show ?thesis by linarith
    qed
    have nonneg: "nonNegative (normalizeAllocationWith add dv raw)"
      using each A3[OF tn] by (auto simp: out nonNegative_def list_all_iff)
    have err: "\<forall>x\<in>set raw. \<bar>dv (snd x) ?t - snd x / ?t\<bar> \<le> ?u * (snd x / ?t) + subnormalError"
    proof
      fix x assume "x \<in> set raw"
      from each[OF this] have q0: "0 \<le> snd x / ?t" and qM: "\<bar>snd x / ?t\<bar> \<le> maxDouble"
        by blast+
      from A2[OF tn qM]
      show "\<bar>dv (snd x) ?t - snd x / ?t\<bar> \<le> ?u * (snd x / ?t) + subnormalError"
        by (simp only: abs_of_nonneg[OF q0])
    qed
    have W: "totalWeight (normalizeAllocationWith add dv raw) = sum_list (map (\<lambda>x. dv (snd x) ?t) raw)"
      by (simp add: out totalWeight_def comp_def case_prod_unfold)
    from sum_list_error[OF err]
    have "\<bar>totalWeight (normalizeAllocationWith add dv raw) - ?r\<bar> \<le> ?u * ?r + real ?n * subnormalError"
      by (simp add: W sum_list_map_quot)
    from final_bound[OF rl rh this c(1,3) ne]
    show ?thesis using nonneg e by simp
  qed
qed



lemma exact_roundsLikeDouble: "roundsLikeDouble (+) (/)"
  by (simp add: roundsLikeDouble_def unitRoundoff_def subnormalError_def)

lemma roundedAdd_roundsLikeDouble: "roundsLikeDouble roundedAdd (/)"
  by (simp add: roundsLikeDouble_def roundedAdd_def unitRoundoff_def subnormalError_def)

lemma normalizeAllocationWith_exact: "normalizeAllocationWith (+) (/) raw = normalizeAllocation raw"
  by (simp add: normalizeAllocationWith_def normalizeAllocation_def)

text \<open>
  C9, as the code has it. Take a raw map without negative weights, with at most
  \<open>2^20\<close> keys and a weight sum of at most \<open>2^1023\<close>, so that the sum cannot leave
  the finite range of doubles. Then, whether the arithmetic is exact or rounded as
  double precision rounds, no output weight is negative and, unless the raw map is
  empty, the output weights sum to 1 within \<open>1e-9\<close>. For every raw map and every
  arithmetic the output is empty exactly when the raw map is. The exact reading is the
  function the agent's model uses, and exact arithmetic is one such rounding.
\<close>

theorem normalizeAllocation_rounded_distribution:
  "(roundsLikeDouble add dv \<and> nonNegative raw \<and> length raw \<le> 2 ^ 20 \<and> totalWeight raw \<le> 2 ^ 1023 \<longrightarrow>
      nonNegative (normalizeAllocationWith add dv raw) \<and>
      (raw \<noteq> [] \<longrightarrow> \<bar>totalWeight (normalizeAllocationWith add dv raw) - 1\<bar> \<le> 1 / 10 ^ 9)) \<and>
   (normalizeAllocationWith add dv raw = [] \<longleftrightarrow> raw = []) \<and>
   normalizeAllocationWith (+) (/) raw = normalizeAllocation raw \<and>
   roundsLikeDouble (+) (/)"
proof -
  have "normalizeAllocationWith add dv raw = [] \<longleftrightarrow> raw = []"
    by (simp add: normalizeAllocationWith_def Let_def)
  with double_precision_bounds[of add dv raw] exact_roundsLikeDouble normalizeAllocationWith_exact[of raw]
  show ?thesis by blast
qed

theorem normalizeAllocation_rounded_distribution_witness:
  "roundsLikeDouble roundedAdd (/) \<and>
   nonNegative [(''momentum'', 2 ^ 53), (''arbitrage'', 3)] \<and>
   length [(''momentum'', 2 ^ 53 :: real), (''arbitrage'', 3)] \<le> 2 ^ 20 \<and>
   totalWeight [(''momentum'', 2 ^ 53), (''arbitrage'', 3)] \<le> 2 ^ 1023 \<and>
   nonNegative (normalizeAllocationWith roundedAdd (/) [(''momentum'', 2 ^ 53), (''arbitrage'', 3)]) \<and>
   totalWeight (normalizeAllocationWith roundedAdd (/) [(''momentum'', 2 ^ 53), (''arbitrage'', 3)])
     = (2 ^ 53 + 3) / (2 ^ 53 + 4) \<and>
   \<bar>totalWeight (normalizeAllocationWith roundedAdd (/) [(''momentum'', 2 ^ 53), (''arbitrage'', 3)]) - 1\<bar>
     \<le> 1 / 10 ^ 9"
proof -
  let ?raw = "[(''momentum'', 2 ^ 53 :: real), (''arbitrage'', 3)]"
  have h1: "roundsLikeDouble roundedAdd (/)" by (rule roundedAdd_roundsLikeDouble)
  have h2: "nonNegative ?raw" by (simp add: nonNegative_def)
  have h3: "length ?raw \<le> 2 ^ 20" by simp
  have h4: "totalWeight ?raw \<le> 2 ^ 1023" by (simp add: totalWeight_def)
  have h5: "?raw \<noteq> []" by simp
  have v: "totalWeight (normalizeAllocationWith roundedAdd (/) ?raw) = (2 ^ 53 + 3) / (2 ^ 53 + 4)"
    by (simp add: normalizeAllocationWith_def roundedAdd_def totalWeight_def)
  from normalizeAllocation_rounded_distribution[of roundedAdd "(/)" ?raw] h1 h2 h3 h4 h5
  have "nonNegative (normalizeAllocationWith roundedAdd (/) ?raw)"
    and "\<bar>totalWeight (normalizeAllocationWith roundedAdd (/) ?raw) - 1\<bar> \<le> 1 / 10 ^ 9"
    by blast+
  with h1 h2 h3 h4 v show ?thesis by blast
qed

text \<open>
  The claim C9 as the specification states it fails on a raw map with a negative
  weight: the output keeps a negative weight and is not empty. It also fails on the
  empty raw map while three strategies are scored: the output is empty, with total
  weight 0. And with weights of both signs the rounding of the sum, as double
  precision rounds it, leaves output weights that sum to 3/4.
\<close>

theorem negative_weight_counterexample:
  "normalizeAllocation [(''momentum'', 2), (''arbitrage'', - 1)]
     = [(''momentum'', 2), (''arbitrage'', - 1)] \<and>
   \<not> nonNegative (normalizeAllocation [(''momentum'', 2), (''arbitrage'', - 1)]) \<and>
   normalizeAllocation [(''momentum'', 2), (''arbitrage'', - 1)] \<noteq> [] \<and>
   length exampleScores = 3 \<and>
   normalizeAllocation [] = [] \<and>
   totalWeight (normalizeAllocation []) = 0 \<and>
   roundsLikeDouble roundedAdd (/) \<and>
   totalWeight (normalizeAllocationWith roundedAdd (/)
                  [(''momentum'', 2 ^ 53), (''arbitrage'', 3), (''copy-trading'', - (2 ^ 53))])
     = 3 / 4"
proof -
  have a: "totalWeight (normalizeAllocationWith roundedAdd (/)
                  [(''momentum'', 2 ^ 53), (''arbitrage'', 3), (''copy-trading'', - (2 ^ 53))])
            = 3 / 4"
    by (simp add: normalizeAllocationWith_def roundedAdd_def totalWeight_def)
  show ?thesis
    using a roundedAdd_roundsLikeDouble
    by (simp add: normalizeAllocation_def nonNegative_def totalWeight_def exampleScores_def)
qed

section \<open>Adaptive scheduler: the volatility factor\<close>

text \<open>
  C5, as the code has it. For a volatility index other than 0 the factor is
  \<open>clamp(1 / (4 * volatilityIndex), 0.5, 2.0)\<close>; at the index 0 the divisor is
  replaced by 1 and the factor is 1.
\<close>

theorem volatilityFactor_clamp:
  "(vi \<noteq> 0 \<longrightarrow> volatilityFactor vi = spec_clamp (1 / (4 * vi)) 0.5 2) \<and> volatilityFactor 0 = 1"
  by (auto simp: volatilityFactor_def spec_clamp_def mult.commute)

theorem volatilityFactor_clamp_witness:
  "(1 / 10 :: real) \<noteq> 0 \<and> volatilityFactor (1 / 10) = 2"
  using volatilityFactor_clamp[of "1 / 10"] by (simp add: spec_clamp_def)

text \<open>The claim C5 as the specification states it fails at the index 0: the factor is 1, not 2.\<close>

theorem volatilityFactor_zero_counterexample:
  "volatilityFactor 0 = 1 \<and> volatilityFactor 0 \<noteq> 2"
  by (simp add: volatilityFactor_def)

section \<open>Strategy scores\<close>

lemma Momentum_evaluate_in_range: "scoreInRange (Momentum_evaluate md)"
  by (simp add: scoreInRange_def Momentum_evaluate_def calculateMomentumScore_def Let_def)

lemma Arbitrage_evaluate_in_range: "scoreInRange (Arbitrage_evaluate md)"
  by (simp add: scoreInRange_def Arbitrage_evaluate_def Let_def)

lemma CopyTrading_evaluate_score_in_range:
  "0 \<le> score (CopyTrading_evaluate md r) \<and> score (CopyTrading_evaluate md r) \<le> 100 \<and>
   0 \<le> confidence (CopyTrading_evaluate md r)"
  by (auto simp: CopyTrading_evaluate_def Let_def split: sum.splits option.splits)

text \<open>
  C8. The copy-trading strategy clamps the score it returns but computes the confidence
  from the score before the clamp: with a volatility index below 0.3 and six
  copy-trading opportunities in the analysis the raw score is 102, the returned score
  100 and the confidence 1.02, outside [0, 1].
\<close>

theorem CopyTrading_evaluate_confidence_above_one:
  "score (CopyTrading_evaluate exampleMarketData (Inr exampleAnalysis)) = 100 \<and>
   confidence (CopyTrading_evaluate exampleMarketData (Inr exampleAnalysis)) = 102 / 100 \<and>
   \<not> scoreInRange (CopyTrading_evaluate exampleMarketData (Inr exampleAnalysis))"
  by (simp add: CopyTrading_evaluate_def exampleMarketData_def exampleAnalysis_def
        copyOpportunity_def scoreInRange_def Let_def)

section \<open>The decision cycle: what the sub-steps leave alone\<close>


lemma andThen_rel_fail:
  assumes m: "\<And>a. R a (snd (m a))"
    and f: "\<And>x a. isl (fst (f x a)) \<Longrightarrow> R a (snd (f x a))"
    and tr: "\<And>a b c. R a b \<Longrightarrow> R b c \<Longrightarrow> R a c"
    and fails: "isl (fst (andThen m f a))"
  shows "R a (snd (andThen m f a))"
proof (cases "m a")
  case (Pair r a')
  with m[of a] have ra: "R a a'" by simp
  show ?thesis
  proof (cases r)
    case (Inl e)
    with Pair ra show ?thesis by (simp add: andThen_def)
  next
    case (Inr x)
    with Pair have eq: "andThen m f a = f x a'" by (simp add: andThen_def)
    with fails have "isl (fst (f x a'))" by simp
    from tr[OF ra f[OF this]] eq show ?thesis by simp
  qed
qed


lemma control_recordDecision: "control (recordDecision now ty det a) = control a"
  by (simp add: control_def recordDecision_def Let_def)

lemma control_adaptRiskSettings: "control (adaptRiskSettings now pa a) = control a"
  by (simp add: adaptRiskSettings_def Let_def control_recordDecision split: option.splits)
     (simp add: control_def)

lemma control_fetchMarketData: "control (snd (fetchMarketData env a)) = control a"
  by (simp add: fetchMarketData_def control_def split: sum.splits)

lemma control_analyzeMarket: "control (snd (analyzeMarket env a)) = control a"
  by (simp add: analyzeMarket_def control_recordDecision split: sum.splits option.splits)
     (simp add: control_def)

lemma control_evaluateStrategies: "control (snd (evaluateStrategies env a)) = control a"
  by (simp add: evaluateStrategies_def split: option.splits)

lemma control_optimizeAllocation: "control (snd (optimizeAllocation env sc a)) = control a"
  by (simp add: optimizeAllocation_def Let_def control_recordDecision split: option.splits)
     (simp add: control_def)

lemma control_executeIfAllocated:
  "control (snd (executeIfAllocated key res st)) = control (snd st)"
  by (cases st) (simp add: executeIfAllocated_def control_def)

lemma control_recordTrades: "control (snd (recordTrades env ts a)) = control a"
proof (induction ts arbitrary: a)
  case Nil
  then show ?case by simp
next
  case (Cons t ts)
  show ?case
    by (simp add: Cons.IH control_recordDecision split: option.splits) (simp add: control_def)
qed

lemma control_executeAllocatedStrategies:
  "control (snd (executeAllocatedStrategies env a)) = control a"
proof -
  have "control (snd (executeIfAllocated ''copy-trading'' (copyTradingResult env)
       (executeIfAllocated ''arbitrage'' (arbitrageResult env)
          (executeIfAllocated ''momentum'' (momentumResult env) ([], a))))) = control a"
    by (simp add: control_executeIfAllocated)
  then show ?thesis
    by (auto simp: executeAllocatedStrategies_def control_recordTrades split: option.splits prod.splits)
qed

lemma control_updatePerformanceMetrics:
  "control (snd (updatePerformanceMetrics env a)) = control a"
  by (simp add: updatePerformanceMetrics_def control_def split: sum.splits option.splits)

lemma control_analyzePerformanceAndAdapt:
  "control (snd (analyzePerformanceAndAdapt env a)) = control a"
  by (simp add: analyzePerformanceAndAdapt_def control_adaptRiskSettings control_recordDecision
        split: sum.splits)

lemma cycleBody_rel_fail:
  assumes s1: "\<And>a. R a (snd (fetchMarketData env a))"
    and s2: "\<And>a. R a (snd (analyzeMarket env a))"
    and s3: "\<And>a. R a (snd (evaluateStrategies env a))"
    and s4: "\<And>sc a. R a (snd (optimizeAllocation env sc a))"
    and s5: "\<And>a. R a (snd (executeAllocatedStrategies env a))"
    and s6: "\<And>a. R a (snd (updatePerformanceMetrics env a))"
    and s7: "\<And>a. isl (fst (analyzePerformanceAndAdapt env a)) \<Longrightarrow> R a (snd (analyzePerformanceAndAdapt env a))"
    and tr: "\<And>a b c. R a b \<Longrightarrow> R b c \<Longrightarrow> R a c"
    and fails: "cycleFails env a"
  shows "R (a\<lparr> lastRunTimestamp := clock env \<rparr>) (snd (cycleBody env a))"
proof -
  have last: "R b (snd (andThen (analyzePerformanceAndAdapt env)
                (\<lambda>_ a'. (Inr (), adaptRunInterval (a'\<lparr> consecutiveFailures := 0 \<rparr>))) b))"
    if "isl (fst (andThen (analyzePerformanceAndAdapt env)
                (\<lambda>_ a'. (Inr (), adaptRunInterval (a'\<lparr> consecutiveFailures := 0 \<rparr>))) b))" for b
    using that s7[of b]
    by (cases "analyzePerformanceAndAdapt env b") (auto simp: andThen_def split: sum.splits)
  from fails show ?thesis
    unfolding cycleFails_def cycleBody_def
    by (intro andThen_rel_fail[where R = R] s1 s2 s3 s4 s5 s6 last) (auto intro: tr)
qed

lemma cycleBody_fail_control:
  assumes "cycleFails env a"
  shows "control (snd (cycleBody env a)) = control a"
proof -
  have "control (snd (cycleBody env a)) = control (a\<lparr> lastRunTimestamp := clock env \<rparr>)"
    by (rule cycleBody_rel_fail[where R = "\<lambda>a b. control b = control a", OF _ _ _ _ _ _ _ _ assms])
       (simp_all add: control_fetchMarketData control_analyzeMarket control_evaluateStrategies
          control_optimizeAllocation control_executeAllocatedStrategies
          control_updatePerformanceMetrics control_analyzePerformanceAndAdapt)
  then show ?thesis by (simp add: control_def)
qed

lemma cycleBody_success_shape:
  assumes "\<not> cycleFails env a"
  shows "\<exists>b. control b = control a \<and>
             snd (cycleBody env a) = adaptRunInterval (b\<lparr> consecutiveFailures := 0 \<rparr>)"
proof -
  let ?Q = "\<lambda>a0 r. \<exists>b. control b = control a0 \<and> r = adaptRunInterval (b\<lparr> consecutiveFailures := 0 \<rparr>)"
  have step: "?Q a0 (snd (andThen m f a1))"
    if m: "\<And>a. control (snd (m a)) = control a"
      and f: "\<And>x a. \<not> isl (fst (f x a)) \<Longrightarrow> ?Q a (snd (f x a))"
      and ok: "\<not> isl (fst (andThen m f a1))" and c: "control a1 = control a0"
    for m :: "'x step" and f a0 a1
  proof (cases "m a1")
    case (Pair r a')
    show ?thesis
    proof (cases r)
      case (Inl e)
      with Pair ok show ?thesis by (simp add: andThen_def)
    next
      case (Inr x)
      with Pair have eq: "andThen m f a1 = f x a'" by (simp add: andThen_def)
      from Pair m[of a1] c have c': "control a' = control a0" by simp
      from ok eq f[of x a'] c' show ?thesis by auto
    qed
  qed
  have "?Q (a\<lparr> lastRunTimestamp := clock env \<rparr>) (snd (cycleBody env a))"
    using assms unfolding cycleFails_def cycleBody_def
    by (intro step[OF control_fetchMarketData] step[OF control_analyzeMarket]
          step[OF control_evaluateStrategies] step[OF control_optimizeAllocation]
          step[OF control_executeAllocatedStrategies] step[OF control_updatePerformanceMetrics]
          step[OF control_analyzePerformanceAndAdapt])
       auto
  then show ?thesis by (auto simp: control_def)
qed

lemma control_adaptRunInterval_reset:
  "isRunning (adaptRunInterval (b\<lparr> consecutiveFailures := 0 \<rparr>)) = isRunning b \<and>
   maxConsecutiveFailures (adaptRunInterval (b\<lparr> consecutiveFailures := 0 \<rparr>)) = maxConsecutiveFailures b \<and>
   pendingTimers (adaptRunInterval (b\<lparr> consecutiveFailures := 0 \<rparr>)) = pendingTimers b \<and>
   consecutiveFailures (adaptRunInterval (b\<lparr> consecutiveFailures := 0 \<rparr>)) = 0"
  by (simp add: adaptRunInterval_def split: option.splits)

lemma runCycle_fail:
  assumes "cycleFails env a"
  shows "consecutiveFailures (runCycle env a) = consecutiveFailures a + 1"
    and "maxConsecutiveFailures (runCycle env a) = maxConsecutiveFailures a"
    and "isRunning (runCycle env a) =
           (isRunning a \<and> consecutiveFailures a + 1 < maxConsecutiveFailures a)"
    and "pendingTimers (runCycle env a) =
           (if isRunning a \<and> consecutiveFailures a + 1 < maxConsecutiveFailures a
            then pendingTimers a @ [adaptiveRunInterval a] else pendingTimers a)"
    and "adaptiveRunInterval (runCycle env a) = adaptiveRunInterval a"
proof -
  obtain e a1 where b: "cycleBody env a = (Inl e, a1)"
    using assms by (cases "cycleBody env a") (auto simp: cycleFails_def isl_def)
  from cycleBody_fail_control[OF assms] b have c: "control a1 = control a" by simp
  show "consecutiveFailures (runCycle env a) = consecutiveFailures a + 1"
    and "maxConsecutiveFailures (runCycle env a) = maxConsecutiveFailures a"
    and "isRunning (runCycle env a) =
           (isRunning a \<and> consecutiveFailures a + 1 < maxConsecutiveFailures a)"
    and "pendingTimers (runCycle env a) =
           (if isRunning a \<and> consecutiveFailures a + 1 < maxConsecutiveFailures a
            then pendingTimers a @ [adaptiveRunInterval a] else pendingTimers a)"
    and "adaptiveRunInterval (runCycle env a) = adaptiveRunInterval a"
    using c by (auto simp: runCycle_def b Let_def stop_def scheduleNextCycle_def control_def)
qed

lemma runCycle_success:
  assumes "\<not> cycleFails env a"
  shows "consecutiveFailures (runCycle env a) = 0"
    and "maxConsecutiveFailures (runCycle env a) = maxConsecutiveFailures a"
    and "isRunning (runCycle env a) = isRunning a"
    and "pendingTimers (runCycle env a) =
           (if isRunning a then pendingTimers a @ [adaptiveRunInterval (runCycle env a)]
            else pendingTimers a)"
proof -
  obtain r a1 where b0: "cycleBody env a = (r, a1)" by (cases "cycleBody env a")
  with assms have "\<not> isl r" by (simp add: cycleFails_def)
  then obtain u where "r = Inr u" by (cases r) auto
  with b0 have b: "cycleBody env a = (Inr u, a1)" by simp
  from cycleBody_success_shape[OF assms] b obtain b0 where
    c: "control b0 = control a" and a1: "a1 = adaptRunInterval (b0\<lparr> consecutiveFailures := 0 \<rparr>)"
    by auto
  show "consecutiveFailures (runCycle env a) = 0"
    and "maxConsecutiveFailures (runCycle env a) = maxConsecutiveFailures a"
    and "isRunning (runCycle env a) = isRunning a"
    and "pendingTimers (runCycle env a) =
           (if isRunning a then pendingTimers a @ [adaptiveRunInterval (runCycle env a)]
            else pendingTimers a)"
    using c control_adaptRunInterval_reset[of b0]
    by (auto simp: runCycle_def b a1 scheduleNextCycle_def control_def)
qed


































































section \<open>The orchestrator\<close>

text \<open>
  C10. On an agent that is already running, \<open>start\<close> changes nothing: the agent, the
  armed timers and the calls made on the strategies and the metrics sink are all as
  before, so no cycle has run and no timer was armed.
\<close>

theorem start_when_running_is_noop: "isRunning a \<Longrightarrow> start env a = a"
  by (simp add: start_def)

theorem start_when_running_is_noop_witness:
  "isRunning (exampleAgent\<lparr> isRunning := True \<rparr>) \<and>
   start quietEnv (exampleAgent\<lparr> isRunning := True \<rparr>) = exampleAgent\<lparr> isRunning := True \<rparr>"
  using start_when_running_is_noop[of "exampleAgent\<lparr> isRunning := True \<rparr>" quietEnv]
  by simp

text \<open>
  C4. \<open>start\<close> on a newly constructed agent leaves two armed timers, both with the
  current adaptive interval, whatever the outcome of the initial cycle: \<open>runCycle\<close>
  arms one as its last statement and \<open>start\<close> arms one more after it. Each of them
  runs a cycle that re-arms itself, so two cycles are pending where the claim says at
  most one.
\<close>

theorem start_arms_two_timers:
  "pendingTimers (start env (newAgent i rp)) =
     [adaptiveRunInterval (start env (newAgent i rp)), adaptiveRunInterval (start env (newAgent i rp))]"
proof -
  let ?a = "(newAgent i rp)\<lparr> isRunning := True \<rparr>"
  have s: "start env (newAgent i rp) = scheduleNextCycle (runCycle env ?a)"
    by (simp add: start_def newAgent_def)
  have f: "isRunning ?a" "consecutiveFailures ?a = 0" "maxConsecutiveFailures ?a = 5"
    "pendingTimers ?a = []"
    by (simp_all add: newAgent_def)
  have "pendingTimers (runCycle env ?a) = [adaptiveRunInterval (runCycle env ?a)]"
  proof (cases "cycleFails env ?a")
    case True
    from runCycle_fail(4,5)[OF True] f show ?thesis by simp
  next
    case False
    from runCycle_success(4)[OF False] f show ?thesis by simp
  qed
  then show ?thesis by (simp add: s scheduleNextCycle_def)
qed






end
